theory Spec2Isabelle
  imports
    Main
    "HOL-Library.Multiset"
    "HOL-Library.Sublist"
    "HOL-Library.Option_ord"
    "HOL-Library.Product_Lexorder"
begin

section \<open>Values the storage layer handles\<close>

text \<open>
  The server keeps its state in two MySQL tables, \<open>tickets\<close> and \<open>reports\<close>
  (\<open>shared/schema.ts\<close> and the \<open>CREATE TABLE\<close> statements kept with the repository).
  Every column but \<open>id\<close> is nullable, so a column value is an \<open>option\<close>: \<open>None\<close> is SQL
  \<open>NULL\<close>. A \<open>DATE\<close> is a (year, month, day) triple, ordered lexicographically, which is the
  calendar order; \<open>VARCHAR\<close>, \<open>TEXT\<close> and \<open>DECIMAL\<close> columns are strings, as the
  TypeScript row types have them; \<open>INT\<close> columns are integers.

  Column values are taken as valid for their column: what the server does with a string longer
  than its \<open>VARCHAR\<close>, an integer outside \<open>INT\<close> or a malformed date depends on
  its \<open>sql_mode\<close> and is not part of this model, nor is a lost connection.
\<close>

type_synonym sql_date = "nat \<times> nat \<times> nat"

definition YEAR :: "sql_date \<Rightarrow> int" where
  "YEAR d = int (fst d)"

subsection \<open>Numbers as decimal strings\<close>

text \<open>
  \<open>count.toString()\<close> and the template literal \<open>`${year}`\<close> print an integer in decimal.
\<close>

definition digit :: "nat \<Rightarrow> char" where
  "digit d = ''0123456789'' ! d"

function toString_nat :: "nat \<Rightarrow> string" where
  "toString_nat n = (if n < 10 then [digit n] else toString_nat (n div 10) @ [digit (n mod 10)])"
  by pat_completeness auto
termination
  by (relation "measure (\<lambda>n. n)") auto

declare toString_nat.simps [simp del]

definition toString :: "int \<Rightarrow> string" where
  "toString i = (if i < 0 then CHR ''-'' # toString_nat (nat (- i)) else toString_nat (nat i))"

text \<open>\<open>s.padStart(n, c)\<close> with a one-character filler.\<close>

definition padStart :: "nat \<Rightarrow> char \<Rightarrow> string \<Rightarrow> string" where
  "padStart n c s = replicate (n - length s) c @ s"

subsection \<open>Rows\<close>

text \<open>
  \<open>InsertTicket\<close> is the row without its \<open>id\<close>; \<open>Ticket\<close> adds the \<open>id\<close> (named
  \<open>ticket_id\<close> here, \<open>id\<close> being the identity function of HOL). A field that the client
  leaves out and a field it sends as \<open>null\<close> both reach the table as \<open>NULL\<close>.
\<close>

record InsertTicket =
  ticketNo :: "string option"
  date :: "sql_date option"
  projectType :: "string option"
  receivedBy :: "string option"
  siteName :: "string option"
  contactPerson :: "string option"
  mobile :: "string option"
  address :: "string option"
  issue :: "string option"
  remarkDetails :: "string option"
  attendedBy :: "string option"
  attendedDate :: "sql_date option"
  ticketStatus :: "string option"
  closingDate :: "sql_date option"
  paidStatus :: "string option"
  amountReceived :: "string option"
  feedback :: "string option"
  feedbackDate :: "sql_date option"
  feedbackTakenBy :: "string option"
  finalRemark :: "string option"

record Ticket = InsertTicket +
  ticket_id :: int

record InsertReport =
  name :: "string option"
  date :: "sql_date option"
  kmIn :: "int option"
  kmOut :: "int option"
  site1 :: "string option"
  serviceReport1 :: "string option"
  site2 :: "string option"
  serviceReport2 :: "string option"
  site3 :: "string option"
  site4 :: "string option"
  serviceReport3 :: "string option"
  transportMode :: "string option"
  totalKm :: "int option"
  amount :: "string option"
  paidOn :: "sql_date option"

record Report = InsertReport +
  report_id :: int

text \<open>
  The database: the rows of each table in insertion order and the table's
  \<open>AUTO_INCREMENT\<close> counter, which names the next \<open>id\<close>.
\<close>

record db =
  tickets :: "Ticket list"
  tickets_auto_increment :: int
  reports :: "Report list"
  reports_auto_increment :: int

definition empty_db :: db where
  "empty_db = \<lparr>tickets = [], tickets_auto_increment = 1, reports = [], reports_auto_increment = 1\<rparr>"

text \<open>The primary key: every stored \<open>id\<close> is unique and below the counter.\<close>

definition pk_tickets :: "db \<Rightarrow> bool" where
  "pk_tickets d =
     (distinct (map ticket_id (tickets d)) \<and>
      list_all (\<lambda>t. ticket_id t < tickets_auto_increment d) (tickets d))"

definition pk_reports :: "db \<Rightarrow> bool" where
  "pk_reports d =
     (distinct (map report_id (reports d)) \<and>
      list_all (\<lambda>r. report_id r < reports_auto_increment d) (reports d))"


section \<open>SQL conditions\<close>

text \<open>
  A condition on a row is true, false or unknown (\<open>None\<close>): a comparison with \<open>NULL\<close>
  is unknown, \<open>and\<close> and \<open>or\<close> follow Kleene's tables, and \<open>WHERE\<close> keeps the rows
  whose condition is true.
\<close>

type_synonym sql_bool = "bool option"

fun sql_and :: "sql_bool \<Rightarrow> sql_bool \<Rightarrow> sql_bool" where
  "sql_and (Some False) _ = Some False"
| "sql_and _ (Some False) = Some False"
| "sql_and (Some True) (Some True) = Some True"
| "sql_and _ _ = None"

fun sql_or :: "sql_bool \<Rightarrow> sql_bool \<Rightarrow> sql_bool" where
  "sql_or (Some True) _ = Some True"
| "sql_or _ (Some True) = Some True"
| "sql_or (Some False) (Some False) = Some False"
| "sql_or _ _ = None"

text \<open>\<open>and(...conditions)\<close> and \<open>or(...conditions)\<close> of drizzle, evaluated on one row.\<close>

definition and_conditions :: "('r \<Rightarrow> sql_bool) list \<Rightarrow> 'r \<Rightarrow> sql_bool" where
  "and_conditions conditions r = foldr (\<lambda>c acc. sql_and (c r) acc) conditions (Some True)"

definition or_conditions :: "('r \<Rightarrow> sql_bool) list \<Rightarrow> 'r \<Rightarrow> sql_bool" where
  "or_conditions conditions r = foldr (\<lambda>c acc. sql_or (c r) acc) conditions (Some False)"

definition sql_where :: "('r \<Rightarrow> sql_bool) \<Rightarrow> 'r list \<Rightarrow> 'r list" where
  "sql_where c rows = filter (\<lambda>r. c r = Some True) rows"

text \<open>
  MySQL compares strings, in \<open>=\<close> and in \<open>LIKE\<close> alike, under the collation of the
  column. The \<open>CREATE TABLE\<close> statements name none, so the server's default applies, and
  the collation is a parameter here: the folding of a character to the representative it is
  compared by. The identity is a binary collation; \<open>ascii_ci\<close> folds the ASCII capitals to
  small letters, as the case-insensitive default collations of MySQL do on ASCII text.
  (Padding with trailing spaces, which some collations apply to \<open>=\<close>, is left out.)
\<close>

type_synonym collation = "char \<Rightarrow> char"

definition ascii_ci :: collation where
  "ascii_ci c =
     (case map_of (zip ''ABCDEFGHIJKLMNOPQRSTUVWXYZ'' ''abcdefghijklmnopqrstuvwxyz'') c of
        None \<Rightarrow> c
      | Some l \<Rightarrow> l)"

definition eq :: "collation \<Rightarrow> string option \<Rightarrow> string \<Rightarrow> sql_bool" where
  "eq cf column v = map_option (\<lambda>s. map cf s = map cf v) column"

text \<open>
  \<open>LIKE\<close>: in the pattern \<open>%\<close> stands for any run of characters, \<open>_\<close> for any one
  character, and a backslash makes the character after it literal (a backslash that ends the
  pattern stands for itself). Every other character is compared under the collation.
\<close>

fun like_match :: "collation \<Rightarrow> string \<Rightarrow> string \<Rightarrow> bool" where
  "like_match cf [] s = (s = [])"
| "like_match cf (p # ps) [] = (p = CHR ''%'' \<and> like_match cf ps [])"
| "like_match cf (p # ps) (c # cs) =
     (if p = CHR ''%'' then like_match cf ps (c # cs) \<or> like_match cf (p # ps) cs
      else if p = CHR ''_'' then like_match cf ps cs
      else if p = CHR 0x5C \<and> ps \<noteq> [] then cf (hd ps) = cf c \<and> like_match cf (tl ps) cs
      else cf p = cf c \<and> like_match cf ps cs)"

definition like :: "collation \<Rightarrow> string option \<Rightarrow> string \<Rightarrow> sql_bool" where
  "like cf column pattern = map_option (like_match cf pattern) column"

definition gte :: "sql_date option \<Rightarrow> sql_date \<Rightarrow> sql_bool" where
  "gte column v = map_option (\<lambda>d. v \<le> d) column"

definition lte :: "sql_date option \<Rightarrow> sql_date \<Rightarrow> sql_bool" where
  "lte column v = map_option (\<lambda>d. d \<le> v) column"

text \<open>
  \<open>ORDER BY date DESC\<close>: the latest date first and \<open>NULL\<close>, the least value of MySQL's
  ordering, last. SQL leaves the order of rows with equal dates open; the model fixes one.
\<close>

definition orderBy_desc :: "('r \<Rightarrow> sql_date option) \<Rightarrow> 'r list \<Rightarrow> 'r list" where
  "orderBy_desc column rows = rev (sort_key column rows)"

text \<open>
  A filter value is a query-string parameter: absent (\<open>None\<close>) or a string. JavaScript takes
  it for true when it is a string that is not empty.
\<close>

definition truthy :: "string option \<Rightarrow> bool" where
  "truthy v = (case v of None \<Rightarrow> False | Some s \<Rightarrow> s \<noteq> [])"

text \<open>\<open>v || d\<close> on an optional string.\<close>

definition or_default :: "string option \<Rightarrow> string \<Rightarrow> string" where
  "or_default v d = (if truthy v then the v else d)"

text \<open>\<open>filters?.field\<close>: the field of an optional filter object.\<close>

definition opt_field :: "('f \<Rightarrow> string option) \<Rightarrow> 'f option \<Rightarrow> string option" where
  "opt_field field filters = (case filters of None \<Rightarrow> None | Some f \<Rightarrow> field f)"

text \<open>
  The storage layer wraps every failure in an \<open>Error\<close> with a fixed message.
\<close>

datatype error = Error string


section \<open>Tickets\<close>

record TicketFilters =
  search :: "string option"
  status :: "string option"
  projectType :: "string option"

text \<open>
  \<open>getTickets(filters)\<close>. The conditions are collected as the source collects them and
  joined by \<open>and\<close>; without a usable filter value the query has no \<open>WHERE\<close>.
\<close>

definition getTickets :: "collation \<Rightarrow> TicketFilters option \<Rightarrow> db \<Rightarrow> Ticket list" where
  "getTickets cf filters d =
     (let query = tickets d;
          query =
            (if truthy (opt_field search filters) \<or> truthy (opt_field status filters)
                \<or> truthy (opt_field TicketFilters.projectType filters)
             then
               (let conditions = [];
                    conditions =
                      (if truthy (opt_field search filters)
                       then
                         (let searchTerm = ''%'' @ the (opt_field search filters) @ ''%''
                          in conditions @
                             [or_conditions
                                [\<lambda>t. like cf (ticketNo t) searchTerm,
                                 \<lambda>t. like cf (siteName t) searchTerm,
                                 \<lambda>t. like cf (contactPerson t) searchTerm]])
                       else conditions);
                    conditions =
                      (if truthy (opt_field status filters)
                       then conditions @
                            [\<lambda>t. eq cf (ticketStatus t) (the (opt_field status filters))]
                       else conditions);
                    conditions =
                      (if truthy (opt_field TicketFilters.projectType filters)
                       then conditions @
                            [\<lambda>t. eq cf (InsertTicket.projectType t)
                                   (the (opt_field TicketFilters.projectType filters))]
                       else conditions)
                in if length conditions > 0 then sql_where (and_conditions conditions) query
                   else query)
             else query)
      in orderBy_desc InsertTicket.date query)"

text \<open>\<open>getTicketById(id)\<close>: \<open>result[0] || undefined\<close>.\<close>

definition getTicketById :: "int \<Rightarrow> db \<Rightarrow> Ticket option" where
  "getTicketById i d =
     (case sql_where (\<lambda>t. Some (ticket_id t = i)) (tickets d) of
        [] \<Rightarrow> None
      | t # _ \<Rightarrow> Some t)"

text \<open>
  \<open>db.insert(tickets).values(v)\<close>: the new row takes the counter as its \<open>id\<close>, which the
  driver reports as \<open>insertId\<close>.
\<close>

definition insert_tickets_values :: "InsertTicket \<Rightarrow> db \<Rightarrow> int \<times> db" where
  "insert_tickets_values v d =
     (let insertId = tickets_auto_increment d;
          row = \<lparr>InsertTicket.ticketNo = InsertTicket.ticketNo v,
            InsertTicket.date = InsertTicket.date v,
            InsertTicket.projectType = InsertTicket.projectType v,
            InsertTicket.receivedBy = InsertTicket.receivedBy v,
            InsertTicket.siteName = InsertTicket.siteName v,
            InsertTicket.contactPerson = InsertTicket.contactPerson v,
            InsertTicket.mobile = InsertTicket.mobile v,
            InsertTicket.address = InsertTicket.address v,
            InsertTicket.issue = InsertTicket.issue v,
            InsertTicket.remarkDetails = InsertTicket.remarkDetails v,
            InsertTicket.attendedBy = InsertTicket.attendedBy v,
            InsertTicket.attendedDate = InsertTicket.attendedDate v,
            InsertTicket.ticketStatus = InsertTicket.ticketStatus v,
            InsertTicket.closingDate = InsertTicket.closingDate v,
            InsertTicket.paidStatus = InsertTicket.paidStatus v,
            InsertTicket.amountReceived = InsertTicket.amountReceived v,
            InsertTicket.feedback = InsertTicket.feedback v,
            InsertTicket.feedbackDate = InsertTicket.feedbackDate v,
            InsertTicket.feedbackTakenBy = InsertTicket.feedbackTakenBy v,
            InsertTicket.finalRemark = InsertTicket.finalRemark v,
            ticket_id = insertId\<rparr>
      in (insertId, d\<lparr>tickets := tickets d @ [row], tickets_auto_increment := insertId + 1\<rparr>))"

definition eq_int :: "int option \<Rightarrow> int \<Rightarrow> sql_bool" where
  "eq_int column v = map_option (\<lambda>n. n = v) column"

text \<open>
  \<open>createTicket(ticket)\<close>. The year of the server's clock, \<open>new Date().getFullYear()\<close>,
  is the first argument. The result is what \<open>getTicketById(insertId)\<close> returns.
\<close>

definition createTicket :: "int \<Rightarrow> InsertTicket \<Rightarrow> db \<Rightarrow> Ticket option \<times> db" where
  "createTicket year ticket d =
     (let countResult =
            int (length (sql_where (\<lambda>t. eq_int (map_option YEAR (InsertTicket.date t)) year)
                           (tickets d)));
          count = countResult + 1;
          ticketNo = ''TKT-'' @ toString year @ ''-'' @ padStart 3 (CHR ''0'') (toString count);
          ticketData = ticket\<lparr>ticketNo := Some ticketNo,
                               ticketStatus := Some (or_default (ticketStatus ticket) ''Open'')\<rparr>;
          (insertId, d') = insert_tickets_values ticketData d
      in (getTicketById insertId d', d'))"

text \<open>
  \<open>Partial<InsertTicket>\<close> is an object holding any of the fields: a list of assignments,
  one constructor for each column, the \<open>SET\<close> clause of the \<open>UPDATE\<close>. (A key whose
  value is \<open>undefined\<close> is dropped by drizzle, so it is the same as an absent key.)
\<close>

datatype ticket_set =
    Set_ticketNo "string option"
  | Set_date "sql_date option"
  | Set_projectType "string option"
  | Set_receivedBy "string option"
  | Set_siteName "string option"
  | Set_contactPerson "string option"
  | Set_mobile "string option"
  | Set_address "string option"
  | Set_issue "string option"
  | Set_remarkDetails "string option"
  | Set_attendedBy "string option"
  | Set_attendedDate "sql_date option"
  | Set_ticketStatus "string option"
  | Set_closingDate "sql_date option"
  | Set_paidStatus "string option"
  | Set_amountReceived "string option"
  | Set_feedback "string option"
  | Set_feedbackDate "sql_date option"
  | Set_feedbackTakenBy "string option"
  | Set_finalRemark "string option"

fun set_ticket :: "ticket_set \<Rightarrow> Ticket \<Rightarrow> Ticket" where
  "set_ticket (Set_ticketNo v) r = r\<lparr>InsertTicket.ticketNo := v\<rparr>"
| "set_ticket (Set_date v) r = r\<lparr>InsertTicket.date := v\<rparr>"
| "set_ticket (Set_projectType v) r = r\<lparr>InsertTicket.projectType := v\<rparr>"
| "set_ticket (Set_receivedBy v) r = r\<lparr>InsertTicket.receivedBy := v\<rparr>"
| "set_ticket (Set_siteName v) r = r\<lparr>InsertTicket.siteName := v\<rparr>"
| "set_ticket (Set_contactPerson v) r = r\<lparr>InsertTicket.contactPerson := v\<rparr>"
| "set_ticket (Set_mobile v) r = r\<lparr>InsertTicket.mobile := v\<rparr>"
| "set_ticket (Set_address v) r = r\<lparr>InsertTicket.address := v\<rparr>"
| "set_ticket (Set_issue v) r = r\<lparr>InsertTicket.issue := v\<rparr>"
| "set_ticket (Set_remarkDetails v) r = r\<lparr>InsertTicket.remarkDetails := v\<rparr>"
| "set_ticket (Set_attendedBy v) r = r\<lparr>InsertTicket.attendedBy := v\<rparr>"
| "set_ticket (Set_attendedDate v) r = r\<lparr>InsertTicket.attendedDate := v\<rparr>"
| "set_ticket (Set_ticketStatus v) r = r\<lparr>InsertTicket.ticketStatus := v\<rparr>"
| "set_ticket (Set_closingDate v) r = r\<lparr>InsertTicket.closingDate := v\<rparr>"
| "set_ticket (Set_paidStatus v) r = r\<lparr>InsertTicket.paidStatus := v\<rparr>"
| "set_ticket (Set_amountReceived v) r = r\<lparr>InsertTicket.amountReceived := v\<rparr>"
| "set_ticket (Set_feedback v) r = r\<lparr>InsertTicket.feedback := v\<rparr>"
| "set_ticket (Set_feedbackDate v) r = r\<lparr>InsertTicket.feedbackDate := v\<rparr>"
| "set_ticket (Set_feedbackTakenBy v) r = r\<lparr>InsertTicket.feedbackTakenBy := v\<rparr>"
| "set_ticket (Set_finalRemark v) r = r\<lparr>InsertTicket.finalRemark := v\<rparr>"

text \<open>
  \<open>updateTicket(id, ticket)\<close>. An \<open>UPDATE\<close> needs at least one assignment: on an object
  with no entry drizzle's \<open>set\<close> throws (\<open>No values to set\<close>) before any statement is
  sent, there being no SQL for an empty \<open>SET\<close>, and the \<open>catch\<close> block turns that into
  \<open>Failed to update ticket\<close>. Otherwise the row with this \<open>id\<close> takes the new values
  and the result is what \<open>getTicketById(id)\<close> then returns.
\<close>

definition updateTicket ::
  "int \<Rightarrow> ticket_set list \<Rightarrow> db \<Rightarrow> (error + Ticket option) \<times> db" where
  "updateTicket i ticket d =
     (if ticket = [] then (Inl (Error ''Failed to update ticket''), d)
      else
        (let d' = d\<lparr>tickets :=
                      map (\<lambda>t. if ticket_id t = i then fold set_ticket ticket t else t) (tickets d)\<rparr>
         in (Inr (getTicketById i d'), d')))"

text \<open>\<open>deleteTicket(id)\<close>: \<open>affectedRows > 0\<close>.\<close>

definition deleteTicket :: "int \<Rightarrow> db \<Rightarrow> bool \<times> db" where
  "deleteTicket i d =
     (let affectedRows = length (filter (\<lambda>t. ticket_id t = i) (tickets d));
          d' = d\<lparr>tickets := filter (\<lambda>t. ticket_id t \<noteq> i) (tickets d)\<rparr>
      in (affectedRows > 0, d'))"

section \<open>Reports\<close>

record ReportFilters =
  search :: "string option"
  fromDate :: "string option"
  toDate :: "string option"

text \<open>
  \<open>getReports(filters)\<close>. The bounds arrive as strings and the server reads them as dates
  when it compares them with the \<open>DATE\<close> column: \<open>to_date\<close> stands for that reading.
\<close>

definition getReports ::
  "collation \<Rightarrow> (string \<Rightarrow> sql_date) \<Rightarrow> ReportFilters option \<Rightarrow> db \<Rightarrow> Report list" where
  "getReports cf to_date filters d =
     (let query = reports d;
          query =
            (if truthy (opt_field ReportFilters.search filters) \<or> truthy (opt_field fromDate filters)
                \<or> truthy (opt_field toDate filters)
             then
               (let conditions = [];
                    conditions =
                      (if truthy (opt_field ReportFilters.search filters)
                       then
                         (let searchTerm = ''%'' @ the (opt_field ReportFilters.search filters) @ ''%''
                          in conditions @ [\<lambda>r. like cf (name r) searchTerm])
                       else conditions);
                    conditions =
                      (if truthy (opt_field fromDate filters)
                       then conditions @
                            [\<lambda>r. gte (InsertReport.date r) (to_date (the (opt_field fromDate filters)))]
                       else conditions);
                    conditions =
                      (if truthy (opt_field toDate filters)
                       then conditions @
                            [\<lambda>r. lte (InsertReport.date r) (to_date (the (opt_field toDate filters)))]
                       else conditions)
                in if length conditions > 0 then sql_where (and_conditions conditions) query
                   else query)
             else query)
      in orderBy_desc InsertReport.date query)"

definition getReportById :: "int \<Rightarrow> db \<Rightarrow> Report option" where
  "getReportById i d =
     (case sql_where (\<lambda>r. Some (report_id r = i)) (reports d) of
        [] \<Rightarrow> None
      | r # _ \<Rightarrow> Some r)"

definition insert_reports_values :: "InsertReport \<Rightarrow> db \<Rightarrow> int \<times> db" where
  "insert_reports_values v d =
     (let insertId = reports_auto_increment d;
          row = \<lparr>InsertReport.name = InsertReport.name v,
            InsertReport.date = InsertReport.date v,
            InsertReport.kmIn = InsertReport.kmIn v,
            InsertReport.kmOut = InsertReport.kmOut v,
            InsertReport.site1 = InsertReport.site1 v,
            InsertReport.serviceReport1 = InsertReport.serviceReport1 v,
            InsertReport.site2 = InsertReport.site2 v,
            InsertReport.serviceReport2 = InsertReport.serviceReport2 v,
            InsertReport.site3 = InsertReport.site3 v,
            InsertReport.site4 = InsertReport.site4 v,
            InsertReport.serviceReport3 = InsertReport.serviceReport3 v,
            InsertReport.transportMode = InsertReport.transportMode v,
            InsertReport.totalKm = InsertReport.totalKm v,
            InsertReport.amount = InsertReport.amount v,
            InsertReport.paidOn = InsertReport.paidOn v,
            report_id = insertId\<rparr>
      in (insertId, d\<lparr>reports := reports d @ [row], reports_auto_increment := insertId + 1\<rparr>))"

text \<open>\<open>createReport(report)\<close> stores the fields as they come.\<close>

definition createReport :: "InsertReport \<Rightarrow> db \<Rightarrow> Report option \<times> db" where
  "createReport report d =
     (let (insertId, d') = insert_reports_values report d
      in (getReportById insertId d', d'))"

datatype report_set =
    RSet_name "string option"
  | RSet_date "sql_date option"
  | RSet_kmIn "int option"
  | RSet_kmOut "int option"
  | RSet_site1 "string option"
  | RSet_serviceReport1 "string option"
  | RSet_site2 "string option"
  | RSet_serviceReport2 "string option"
  | RSet_site3 "string option"
  | RSet_site4 "string option"
  | RSet_serviceReport3 "string option"
  | RSet_transportMode "string option"
  | RSet_totalKm "int option"
  | RSet_amount "string option"
  | RSet_paidOn "sql_date option"

fun set_report :: "report_set \<Rightarrow> Report \<Rightarrow> Report" where
  "set_report (RSet_name v) r = r\<lparr>InsertReport.name := v\<rparr>"
| "set_report (RSet_date v) r = r\<lparr>InsertReport.date := v\<rparr>"
| "set_report (RSet_kmIn v) r = r\<lparr>InsertReport.kmIn := v\<rparr>"
| "set_report (RSet_kmOut v) r = r\<lparr>InsertReport.kmOut := v\<rparr>"
| "set_report (RSet_site1 v) r = r\<lparr>InsertReport.site1 := v\<rparr>"
| "set_report (RSet_serviceReport1 v) r = r\<lparr>InsertReport.serviceReport1 := v\<rparr>"
| "set_report (RSet_site2 v) r = r\<lparr>InsertReport.site2 := v\<rparr>"
| "set_report (RSet_serviceReport2 v) r = r\<lparr>InsertReport.serviceReport2 := v\<rparr>"
| "set_report (RSet_site3 v) r = r\<lparr>InsertReport.site3 := v\<rparr>"
| "set_report (RSet_site4 v) r = r\<lparr>InsertReport.site4 := v\<rparr>"
| "set_report (RSet_serviceReport3 v) r = r\<lparr>InsertReport.serviceReport3 := v\<rparr>"
| "set_report (RSet_transportMode v) r = r\<lparr>InsertReport.transportMode := v\<rparr>"
| "set_report (RSet_totalKm v) r = r\<lparr>InsertReport.totalKm := v\<rparr>"
| "set_report (RSet_amount v) r = r\<lparr>InsertReport.amount := v\<rparr>"
| "set_report (RSet_paidOn v) r = r\<lparr>InsertReport.paidOn := v\<rparr>"

definition updateReport ::
  "int \<Rightarrow> report_set list \<Rightarrow> db \<Rightarrow> (error + Report option) \<times> db" where
  "updateReport i report d =
     (if report = [] then (Inl (Error ''Failed to update report''), d)
      else
        (let d' = d\<lparr>reports :=
                      map (\<lambda>r. if report_id r = i then fold set_report report r else r) (reports d)\<rparr>
         in (Inr (getReportById i d'), d')))"

definition deleteReport :: "int \<Rightarrow> db \<Rightarrow> bool \<times> db" where
  "deleteReport i d =
     (let affectedRows = length (filter (\<lambda>r. report_id r = i) (reports d));
          d' = d\<lparr>reports := filter (\<lambda>r. report_id r \<noteq> i) (reports d)\<rparr>
      in (affectedRows > 0, d'))"


section \<open>The spreadsheet export of the client\<close>

text \<open>
  \<open>exportToExcel(data: any[], type, filename)\<close> reads the records it is given as plain
  JavaScript objects, so they are objects here too: a list of properties, a missing property
  reading as \<open>undefined\<close>. Numbers are the integers of the \<open>INT\<close> columns.
\<close>

datatype jsval = JUndefined | JNull | JBoolean bool | JNumber int | JString string

type_synonym obj = "(string \<times> jsval) list"

definition js_prop :: "obj \<Rightarrow> string \<Rightarrow> jsval" where
  "js_prop ob k = (case map_of ob k of None \<Rightarrow> JUndefined | Some v \<Rightarrow> v)"

fun js_truthy :: "jsval \<Rightarrow> bool" where
  "js_truthy JUndefined = False"
| "js_truthy JNull = False"
| "js_truthy (JBoolean b) = b"
| "js_truthy (JNumber n) = (n \<noteq> 0)"
| "js_truthy (JString s) = (s \<noteq> [])"

text \<open>\<open>a || b\<close>.\<close>

definition js_or :: "jsval \<Rightarrow> jsval \<Rightarrow> jsval" where
  "js_or a b = (if js_truthy a then a else b)"

text \<open>\<open>String(v)\<close>.\<close>

fun js_String :: "jsval \<Rightarrow> string" where
  "js_String JUndefined = ''undefined''"
| "js_String JNull = ''null''"
| "js_String (JBoolean b) = (if b then ''true'' else ''false'')"
| "js_String (JNumber n) = toString n"
| "js_String (JString s) = s"

text \<open>
  \<open>v ? new Date(v).toLocaleDateString() : ''\<close>. The rendering of a date depends on the
  locale of the browser and is a parameter.
\<close>

definition date_cell :: "(jsval \<Rightarrow> string) \<Rightarrow> jsval \<Rightarrow> jsval" where
  "date_cell toLocaleDateString v = (if js_truthy v then JString (toLocaleDateString v) else JString [])"

datatype sheet_type = Tickets | Reports

definition ticket_headers :: "string list" where
  "ticket_headers =
     [''Ticket No'',
      ''Date'',
      ''Project Type'',
      ''Received By'',
      ''Site Name'',
      ''Contact Person'',
      ''Mobile'',
      ''Address'',
      ''Issue'',
      ''Remark Details'',
      ''Attended By'',
      ''Attended Date'',
      ''Ticket Status'',
      ''Closing Date'',
      ''Paid Status'',
      ''Amount Received'',
      ''Feedback'',
      ''Feedback Date'',
      ''Feedback Taken By'',
      ''Final Remark'']"

definition report_headers :: "string list" where
  "report_headers =
     [''Name'',
      ''Date'',
      ''KM In'',
      ''KM Out'',
      ''Site 1'',
      ''Service Report 1'',
      ''Site 2'',
      ''Service Report 2'',
      ''Site 3'',
      ''Site 4'',
      ''Service Report 3'',
      ''Transport Mode'',
      ''Total KM'',
      ''Amount'',
      ''Paid On'']"

definition ticket_row :: "(jsval \<Rightarrow> string) \<Rightarrow> obj \<Rightarrow> jsval list" where
  "ticket_row toLocaleDateString ticket =
     [js_or (js_prop ticket ''ticketNo'') (JString []),
      date_cell toLocaleDateString (js_prop ticket ''date''),
      js_or (js_prop ticket ''projectType'') (JString []),
      js_or (js_prop ticket ''receivedBy'') (JString []),
      js_or (js_prop ticket ''siteName'') (JString []),
      js_or (js_prop ticket ''contactPerson'') (JString []),
      js_or (js_prop ticket ''mobile'') (JString []),
      js_or (js_prop ticket ''address'') (JString []),
      js_or (js_prop ticket ''issue'') (JString []),
      js_or (js_prop ticket ''remarkDetails'') (JString []),
      js_or (js_prop ticket ''attendedBy'') (JString []),
      date_cell toLocaleDateString (js_prop ticket ''attendedDate''),
      js_or (js_prop ticket ''ticketStatus'') (JString []),
      date_cell toLocaleDateString (js_prop ticket ''closingDate''),
      js_or (js_prop ticket ''paidStatus'') (JString []),
      js_or (js_prop ticket ''amountReceived'') (JString []),
      js_or (js_prop ticket ''feedback'') (JString []),
      date_cell toLocaleDateString (js_prop ticket ''feedbackDate''),
      js_or (js_prop ticket ''feedbackTakenBy'') (JString []),
      js_or (js_prop ticket ''finalRemark'') (JString [])]"

definition report_row :: "(jsval \<Rightarrow> string) \<Rightarrow> obj \<Rightarrow> jsval list" where
  "report_row toLocaleDateString report =
     [js_or (js_prop report ''name'') (JString []),
      date_cell toLocaleDateString (js_prop report ''date''),
      js_or (js_prop report ''kmIn'') (JString []),
      js_or (js_prop report ''kmOut'') (JString []),
      js_or (js_prop report ''site1'') (JString []),
      js_or (js_prop report ''serviceReport1'') (JString []),
      js_or (js_prop report ''site2'') (JString []),
      js_or (js_prop report ''serviceReport2'') (JString []),
      js_or (js_prop report ''site3'') (JString []),
      js_or (js_prop report ''site4'') (JString []),
      js_or (js_prop report ''serviceReport3'') (JString []),
      js_or (js_prop report ''transportMode'') (JString []),
      js_or (js_prop report ''totalKm'') (JString []),
      js_or (js_prop report ''amount'') (JString []),
      date_cell toLocaleDateString (js_prop report ''paidOn'')]"

text \<open>
  What \<open>XLSX.writeFile\<close> is given: the sheet's name, its cells (the header row first), the
  column widths and the file name. The colouring of the header row is left out.
\<close>

record workbook =
  sheetName :: string
  worksheetData :: "jsval list list"
  colWidths :: "nat list"
  finalFilename :: string

text \<open>
  \<open>data\<close> is \<open>None\<close> when the caller passes \<open>null\<close> or \<open>undefined\<close>;
  \<open>timestamp\<close> is the day of the browser's clock in ISO form.
\<close>

definition exportToExcel ::
  "(jsval \<Rightarrow> string) \<Rightarrow> string \<Rightarrow> obj list option \<Rightarrow> sheet_type \<Rightarrow> string \<Rightarrow> error + workbook" where
  "exportToExcel toLocaleDateString timestamp data type filename =
     (case data of
        None \<Rightarrow> Inl (Error ''No data to export'')
      | Some records \<Rightarrow>
          if length records = 0 then Inl (Error ''No data to export'')
          else
            (let headers = (if type = Tickets then ticket_headers else report_headers);
                 rows = (if type = Tickets then map (ticket_row toLocaleDateString) records
                         else map (report_row toLocaleDateString) records);
                 worksheetData = map JString headers # rows;
                 colWidths =
                   map (\<lambda>(header, i).
                         let maxWidth =
                               fold max
                                 (map (\<lambda>row. length (js_String (js_or (row ! i) (JString [])))) rows)
                                 (length header)
                         in min (maxWidth + 2) 50)
                       (zip headers [0..<length headers])
             in Inr \<lparr>sheetName = (if type = Tickets then ''Tickets'' else ''Reports''),
                      worksheetData = worksheetData,
                      colWidths = colWidths,
                      finalFilename = filename @ ''_'' @ timestamp @ ''.xlsx''\<rparr>))"


section \<open>Sample data\<close>

text \<open>The request body \<open>{}\<close>: every field left out.\<close>

definition blank_ticket :: InsertTicket where
  "blank_ticket =
     \<lparr>ticketNo = None, InsertTicket.date = None, InsertTicket.projectType = None,
      receivedBy = None, siteName = None, contactPerson = None, mobile = None, address = None,
      issue = None, remarkDetails = None, attendedBy = None, attendedDate = None,
      ticketStatus = None, closingDate = None, paidStatus = None, amountReceived = None,
      feedback = None, feedbackDate = None, feedbackTakenBy = None, finalRemark = None\<rparr>"

definition blank_report :: InsertReport where
  "blank_report =
     \<lparr>name = None, InsertReport.date = None, kmIn = None, kmOut = None, site1 = None,
      serviceReport1 = None, site2 = None, serviceReport2 = None, site3 = None, site4 = None,
      serviceReport3 = None, transportMode = None, totalKm = None, amount = None, paidOn = None\<rparr>"

definition ticket_a :: InsertTicket where
  "ticket_a = blank_ticket\<lparr>ticketNo := Some ''MINE-1'', InsertTicket.date := Some (2025, 3, 14),
                            InsertTicket.projectType := Some ''AMC'', siteName := Some ''Plant 7'',
                            contactPerson := Some ''R. Iyer''\<rparr>"

definition ticket_b :: InsertTicket where
  "ticket_b = blank_ticket\<lparr>InsertTicket.date := Some (2025, 6, 2),
                            InsertTicket.projectType := Some ''Installation'',
                            siteName := Some ''Depot'', ticketStatus := Some ''Closed''\<rparr>"

definition report_asha :: InsertReport where
  "report_asha = blank_report\<lparr>name := Some ''Asha'', InsertReport.date := Some (2025, 3, 14),
                              kmIn := Some 100, kmOut := Some 175, totalKm := Some 0\<rparr>"

definition report_ravi :: InsertReport where
  "report_ravi = blank_report\<lparr>name := Some ''Ravi'', InsertReport.date := Some (2025, 4, 1),
                              kmIn := Some 10, kmOut := Some 30, totalKm := Some 20\<rparr>"

text \<open>A database holding two tickets and two reports, built by the operations themselves.\<close>

definition sample_db :: db where
  "sample_db =
     snd (createReport report_ravi (snd (createReport report_asha
       (snd (createTicket 2025 ticket_b (snd (createTicket 2025 ticket_a empty_db)))))))"

definition sample_obj :: obj where
  "sample_obj = [(''name'', JString ''Asha''), (''date'', JString ''2025-03-14''),
                 (''kmIn'', JNumber 0), (''kmOut'', JNumber 75), (''totalKm'', JNumber 75),
                 (''amount'', JString ''0.00''), (''paidOn'', JNull)]"

text \<open>
  The scenario of a ticket deleted between two creations: two tickets are created in 2025, the
  first is deleted, a third is created.
\<close>

definition reused_db :: db where
  "reused_db =
     snd (createTicket 2025 ticket_b (snd (deleteTicket 1
       (snd (createTicket 2025 ticket_b (snd (createTicket 2025 ticket_a empty_db)))))))"

text \<open>A reading of \<open>YYYY-MM-DD\<close> as a date, for the examples.\<close>

definition digit_val :: "char \<Rightarrow> nat" where
  "digit_val c = of_char c - 48"

definition iso_date :: "string \<Rightarrow> sql_date" where
  "iso_date s =
     (foldl (\<lambda>n c. 10 * n + digit_val c) 0 (take 4 s),
      foldl (\<lambda>n c. 10 * n + digit_val c) 0 (take 2 (drop 5 s)),
      foldl (\<lambda>n c. 10 * n + digit_val c) 0 (take 2 (drop 8 s)))"

section \<open>What the specification says, in its own words\<close>

text \<open>A ticket whose date falls in the given calendar year.\<close>

definition dated_in :: "int \<Rightarrow> 'a InsertTicket_scheme \<Rightarrow> bool" where
  "dated_in year t = (case InsertTicket.date t of None \<Rightarrow> False | Some d \<Rightarrow> YEAR d = year)"

text \<open>
  A search text free of the characters that \<open>LIKE\<close> gives a meaning to.
\<close>

definition plain :: "string option \<Rightarrow> bool" where
  "plain v = (case v of None \<Rightarrow> True
              | Some s \<Rightarrow> list_all (\<lambda>c. c \<noteq> CHR ''%'' \<and> c \<noteq> CHR ''_'' \<and> c \<noteq> CHR 0x5C) s)"

text \<open>
  The column holds a value that contains the text, or that equals it, characters being compared
  under the collation; a \<open>NULL\<close> column does neither.
\<close>

definition contains_text :: "collation \<Rightarrow> string option \<Rightarrow> string \<Rightarrow> bool" where
  "contains_text cf column x =
     (case column of None \<Rightarrow> False | Some s \<Rightarrow> sublist (map cf x) (map cf s))"

definition equals_text :: "collation \<Rightarrow> string option \<Rightarrow> string \<Rightarrow> bool" where
  "equals_text cf column v = (case column of None \<Rightarrow> False | Some s \<Rightarrow> map cf s = map cf v)"

text \<open>
  The conjunction of the predicates of the filter values that are supplied and not empty.
\<close>

definition ticket_satisfies :: "collation \<Rightarrow> TicketFilters option \<Rightarrow> Ticket \<Rightarrow> bool" where
  "ticket_satisfies cf filters t =
     ((if truthy (opt_field TicketFilters.search filters)
       then contains_text cf (ticketNo t) (the (opt_field TicketFilters.search filters))
          \<or> contains_text cf (siteName t) (the (opt_field TicketFilters.search filters))
          \<or> contains_text cf (contactPerson t) (the (opt_field TicketFilters.search filters))
       else True)
      \<and> (if truthy (opt_field status filters)
         then equals_text cf (ticketStatus t) (the (opt_field status filters)) else True)
      \<and> (if truthy (opt_field TicketFilters.projectType filters)
         then equals_text cf (InsertTicket.projectType t) (the (opt_field TicketFilters.projectType filters))
         else True))"

definition report_satisfies ::
  "collation \<Rightarrow> (string \<Rightarrow> sql_date) \<Rightarrow> ReportFilters option \<Rightarrow> Report \<Rightarrow> bool" where
  "report_satisfies cf to_date filters r =
     ((if truthy (opt_field ReportFilters.search filters)
       then contains_text cf (name r) (the (opt_field ReportFilters.search filters)) else True)
      \<and> (if truthy (opt_field fromDate filters)
         then (case InsertReport.date r of None \<Rightarrow> False
               | Some x \<Rightarrow> to_date (the (opt_field fromDate filters)) \<le> x) else True)
      \<and> (if truthy (opt_field toDate filters)
         then (case InsertReport.date r of None \<Rightarrow> False
               | Some x \<Rightarrow> x \<le> to_date (the (opt_field toDate filters))) else True))"

text \<open>Ordered by date, the newest first, rows without a date last.\<close>

definition newest_first :: "('r \<Rightarrow> sql_date option) \<Rightarrow> 'r list \<Rightarrow> bool" where
  "newest_first column rows = sorted_wrt (\<lambda>a b. column b \<le> column a) rows"

text \<open>An empty filter value taken for an absent one.\<close>

definition drop_empty :: "string option \<Rightarrow> string option" where
  "drop_empty v = (if v = Some [] then None else v)"

text \<open>The assignment is to \<open>ticketNo\<close>.\<close>

definition sets_ticketNo :: "ticket_set \<Rightarrow> bool" where
  "sets_ticketNo a = (case a of Set_ticketNo v \<Rightarrow> True | _ \<Rightarrow> False)"

section \<open>Facts about the tables\<close>


lemma sql_where_id_nil:
  "list_all (\<lambda>t. f t \<noteq> i) rows \<Longrightarrow> sql_where (\<lambda>t. Some (f t = i)) rows = []"
  by (induction rows) (auto simp: sql_where_def)

lemma pk_tickets_fresh:
  "pk_tickets d \<Longrightarrow> list_all (\<lambda>t. ticket_id t \<noteq> tickets_auto_increment d) (tickets d)"
  by (auto simp: pk_tickets_def list_all_iff)

lemma pk_tickets_insert:
  "pk_tickets d \<Longrightarrow> pk_tickets (snd (insert_tickets_values v d))"
  by (fastforce simp: pk_tickets_def insert_tickets_values_def Let_def list_all_iff)

lemma count_year_eq:
  "sql_where (\<lambda>t. eq_int (map_option YEAR (InsertTicket.date t)) year) rows = filter (dated_in year) rows"
  unfolding sql_where_def
  by (rule filter_cong) (auto simp: eq_int_def dated_in_def split: option.splits)

lemma createTicket_eq:
  assumes "pk_tickets d"
  shows "\<exists>t. createTicket year ticket d
              = (Some t, d\<lparr>tickets := tickets d @ [t],
                           tickets_auto_increment := tickets_auto_increment d + 1\<rparr>)
           \<and> ticket_id t = tickets_auto_increment d
           \<and> ticketNo t = Some (''TKT-'' @ toString year @ ''-'' @
                 padStart 3 (CHR ''0'') (toString (int (length (filter (dated_in year) (tickets d))) + 1)))
           \<and> InsertTicket.date t = InsertTicket.date ticket
           \<and> ticketStatus t = Some (or_default (ticketStatus ticket) ''Open'')"
  using sql_where_id_nil [OF pk_tickets_fresh [OF assms]]
  by (simp add: createTicket_def count_year_eq getTicketById_def insert_tickets_values_def Let_def sql_where_def)

lemma pk_tickets_createTicket:
  "pk_tickets d \<Longrightarrow> pk_tickets (snd (createTicket year ticket d))"
  using pk_tickets_insert by (simp add: createTicket_def Let_def split_beta)

lemma pk_empty_db: "pk_tickets empty_db \<and> pk_reports empty_db"
  by (simp add: pk_tickets_def pk_reports_def empty_db_def)

lemma toString_small: "toString 1 = ''1''" "toString 2 = ''2''"
  by (simp_all add: toString_def toString_nat.simps digit_def)

lemma pk_reports_fresh:
  "pk_reports d \<Longrightarrow> list_all (\<lambda>r. report_id r \<noteq> reports_auto_increment d) (reports d)"
  by (auto simp: pk_reports_def list_all_iff)

lemma filter_neq_length:
  "length (filter P xs) < length xs \<longleftrightarrow> (\<exists>x\<in>set xs. \<not> P x)"
  by (induction xs) (auto simp: less_Suc_eq_le)

section \<open>Ticket numbers\<close>

text \<open>
  Claim C1. Whatever the client sends, also as \<open>ticketNo\<close>, \<open>createTicket\<close> stores the
  ticket under the number \<open>TKT-<year>-<n>\<close>, where \<open>n\<close> is one more than the number of
  stored tickets whose date falls in the year of the clock, padded with zeros to three digits.
  So when no stored ticket is dated in 2025, a ticket dated in 2025 and created in 2025 gets
  \<open>TKT-2025-001\<close> and the ticket created next gets \<open>TKT-2025-002\<close>. (The count is over the
  \<open>date\<close> column, which the client fills: the first of the two tickets has to carry a date in
  2025 for the second to be counted after it.)
\<close>

theorem createTicket_assigns_ticketNo:
  assumes "pk_tickets d"
  shows "(\<exists>t. createTicket year ticket d = (Some t, snd (createTicket year ticket d))
            \<and> tickets (snd (createTicket year ticket d)) = tickets d @ [t]
            \<and> ticketNo t = Some (''TKT-'' @ toString year @ ''-'' @
                  padStart 3 (CHR ''0'')
                    (toString (int (length (filter (dated_in year) (tickets d))) + 1))))
       \<and> createTicket year (ticket\<lparr>ticketNo := supplied\<rparr>) d = createTicket year ticket d
       \<and> (list_all (\<lambda>t. \<not> dated_in 2025 t) (tickets d) \<and> dated_in 2025 ticket \<longrightarrow>
            (\<exists>t1 d1 t2 d2.
                createTicket 2025 ticket d = (Some t1, d1)
              \<and> createTicket 2025 ticket2 d1 = (Some t2, d2)
              \<and> ticketNo t1 = Some ''TKT-2025-001''
              \<and> ticketNo t2 = Some ''TKT-2025-002''))"
proof (intro conjI impI)
  show "\<exists>t. createTicket year ticket d = (Some t, snd (createTicket year ticket d))
            \<and> tickets (snd (createTicket year ticket d)) = tickets d @ [t]
            \<and> ticketNo t = Some (''TKT-'' @ toString year @ ''-'' @
                  padStart 3 (CHR ''0'')
                    (toString (int (length (filter (dated_in year) (tickets d))) + 1)))"
    using createTicket_eq [OF assms, of year ticket] by auto
next
  show "createTicket year (ticket\<lparr>ticketNo := supplied\<rparr>) d = createTicket year ticket d"
    by (simp add: createTicket_def)
next
  assume h: "list_all (\<lambda>t. \<not> dated_in 2025 t) (tickets d) \<and> dated_in 2025 ticket"
  then have none: "filter (dated_in 2025) (tickets d) = []"
    by (auto simp: filter_empty_conv list_all_iff)
  from createTicket_eq [OF assms, of 2025 ticket] obtain t1 where
    c1: "createTicket 2025 ticket d
           = (Some t1, d\<lparr>tickets := tickets d @ [t1],
                         tickets_auto_increment := tickets_auto_increment d + 1\<rparr>)"
    and n1: "ticketNo t1 = Some (''TKT-'' @ toString 2025 @ ''-'' @
                 padStart 3 (CHR ''0'') (toString (int (length (filter (dated_in 2025) (tickets d))) + 1)))"
    and dt1: "InsertTicket.date t1 = InsertTicket.date ticket"
    by blast
  let ?d1 = "d\<lparr>tickets := tickets d @ [t1], tickets_auto_increment := tickets_auto_increment d + 1\<rparr>"
  have pk1: "pk_tickets ?d1"
    using pk_tickets_createTicket [OF assms, of 2025 ticket] c1 by simp
  have in1: "dated_in 2025 t1"
    using h dt1 by (simp add: dated_in_def)
  from createTicket_eq [OF pk1, of 2025 ticket2] obtain t2 d2 where
    c2: "createTicket 2025 ticket2 ?d1 = (Some t2, d2)"
    and n2: "ticketNo t2 = Some (''TKT-'' @ toString 2025 @ ''-'' @
                 padStart 3 (CHR ''0'') (toString (int (length (filter (dated_in 2025) (tickets ?d1))) + 1)))"
    by blast
  have y: "toString 2025 = ''2025''"
    by (simp add: toString_def toString_nat.simps digit_def)
  have "ticketNo t1 = Some ''TKT-2025-001''"
    using n1 none by (simp add: y toString_small padStart_def eval_nat_numeral)
  moreover have "ticketNo t2 = Some ''TKT-2025-002''"
    using n2 none in1 by (simp add: y toString_small padStart_def eval_nat_numeral)
  ultimately show "\<exists>t1 d1 t2 d2.
                createTicket 2025 ticket d = (Some t1, d1)
              \<and> createTicket 2025 ticket2 d1 = (Some t2, d2)
              \<and> ticketNo t1 = Some ''TKT-2025-001''
              \<and> ticketNo t2 = Some ''TKT-2025-002''"
    using c1 c2 by blast
qed

theorem createTicket_assigns_ticketNo_witness:
  "pk_tickets empty_db
   \<and> list_all (\<lambda>t. \<not> dated_in 2025 t) (tickets empty_db) \<and> dated_in 2025 ticket_a
   \<and> ticketNo ticket_a = Some ''MINE-1''
   \<and> (\<exists>t1 d1 t2 d2.
          createTicket 2025 ticket_a empty_db = (Some t1, d1)
        \<and> createTicket 2025 ticket_b d1 = (Some t2, d2)
        \<and> ticketNo t1 = Some ''TKT-2025-001''
        \<and> ticketNo t2 = Some ''TKT-2025-002'')"
proof -
  have pk: "pk_tickets empty_db"
    by (simp add: pk_empty_db)
  have h: "list_all (\<lambda>t. \<not> dated_in 2025 t) (tickets empty_db) \<and> dated_in 2025 ticket_a"
    by (simp add: empty_db_def dated_in_def ticket_a_def blank_ticket_def YEAR_def)
  have s: "ticketNo ticket_a = Some ''MINE-1''"
    by (simp add: ticket_a_def blank_ticket_def)
  from createTicket_assigns_ticketNo [OF pk, of 2025 ticket_a None ticket_b] h
  show ?thesis using pk s by blast
qed

section \<open>Reports are stored as sent\<close>

text \<open>
  Claim C10. \<open>createReport\<close> stores every field as the client sent it, \<open>totalKm\<close>
  included: nothing compares it with \<open>kmOut - kmIn\<close>. A report sent with \<open>kmIn = 100\<close>,
  \<open>kmOut = 175\<close> and \<open>totalKm = 0\<close> is stored with \<open>totalKm = 0\<close>.
\<close>

theorem createReport_stores_totalKm_as_sent:
  assumes "pk_reports d"
  shows "\<exists>r. createReport report d
              = (Some r, d\<lparr>reports := reports d @ [r],
                           reports_auto_increment := reports_auto_increment d + 1\<rparr>)
           \<and> InsertReport.truncate r = report
           \<and> totalKm r = totalKm report \<and> kmIn r = kmIn report \<and> kmOut r = kmOut report"
  using sql_where_id_nil [OF pk_reports_fresh [OF assms]]
  by (simp add: createReport_def getReportById_def insert_reports_values_def Let_def sql_where_def
      InsertReport.truncate_def)

theorem createReport_stores_totalKm_as_sent_witness:
  "pk_reports empty_db \<and>
   (\<exists>r. fst (createReport report_asha empty_db) = Some r
       \<and> kmIn r = Some 100 \<and> kmOut r = Some 175 \<and> totalKm r = Some 0)"
proof -
  have pk: "pk_reports empty_db"
    by (simp add: pk_empty_db)
  have "kmIn report_asha = Some 100 \<and> kmOut report_asha = Some 175 \<and> totalKm report_asha = Some 0"
    by (simp add: report_asha_def blank_report_def)
  with createReport_stores_totalKm_as_sent [OF pk, of report_asha]
  show ?thesis using pk by auto
qed

section \<open>Deleting\<close>

text \<open>
  Claim C7. \<open>deleteTicket\<close> and \<open>deleteReport\<close> answer true exactly when a row was
  removed. On an \<open>id\<close> that no row has they answer false and change nothing; on an
  \<open>id\<close> that a row has they answer true, and a second call right after answers false and
  leaves the database as the first call left it.
\<close>

theorem delete_true_iff_row_removed:
  "(fst (deleteTicket i d) \<longleftrightarrow> length (tickets (snd (deleteTicket i d))) < length (tickets d))
   \<and> (i \<notin> ticket_id ` set (tickets d) \<longrightarrow> deleteTicket i d = (False, d))
   \<and> (i \<in> ticket_id ` set (tickets d) \<longrightarrow>
         fst (deleteTicket i d)
         \<and> deleteTicket i (snd (deleteTicket i d)) = (False, snd (deleteTicket i d)))
   \<and> (fst (deleteReport j d) \<longleftrightarrow> length (reports (snd (deleteReport j d))) < length (reports d))
   \<and> (j \<notin> report_id ` set (reports d) \<longrightarrow> deleteReport j d = (False, d))
   \<and> (j \<in> report_id ` set (reports d) \<longrightarrow>
         fst (deleteReport j d)
         \<and> deleteReport j (snd (deleteReport j d)) = (False, snd (deleteReport j d)))"
proof -
  have t1: "fst (deleteTicket i d) \<longleftrightarrow> length (tickets (snd (deleteTicket i d))) < length (tickets d)"
    by (auto simp: deleteTicket_def Let_def filter_neq_length filter_empty_conv)
  have t2: "i \<notin> ticket_id ` set (tickets d) \<longrightarrow> deleteTicket i d = (False, d)"
  proof
    assume a: "i \<notin> ticket_id ` set (tickets d)"
    then have "filter (\<lambda>t. ticket_id t = i) (tickets d) = []"
      by (auto simp: filter_empty_conv)
    moreover from a have "filter (\<lambda>t. ticket_id t \<noteq> i) (tickets d) = tickets d"
      by (auto simp: filter_id_conv)
    ultimately show "deleteTicket i d = (False, d)"
      by (simp add: deleteTicket_def Let_def)
  qed
  have t3: "i \<in> ticket_id ` set (tickets d) \<longrightarrow>
         fst (deleteTicket i d)
         \<and> deleteTicket i (snd (deleteTicket i d)) = (False, snd (deleteTicket i d))"
    by (auto simp: deleteTicket_def Let_def filter_empty_conv)
  have r1: "fst (deleteReport j d) \<longleftrightarrow> length (reports (snd (deleteReport j d))) < length (reports d)"
    by (auto simp: deleteReport_def Let_def filter_neq_length filter_empty_conv)
  have r2: "j \<notin> report_id ` set (reports d) \<longrightarrow> deleteReport j d = (False, d)"
  proof
    assume a: "j \<notin> report_id ` set (reports d)"
    then have "filter (\<lambda>r. report_id r = j) (reports d) = []"
      by (auto simp: filter_empty_conv)
    moreover from a have "filter (\<lambda>r. report_id r \<noteq> j) (reports d) = reports d"
      by (auto simp: filter_id_conv)
    ultimately show "deleteReport j d = (False, d)"
      by (simp add: deleteReport_def Let_def)
  qed
  have r3: "j \<in> report_id ` set (reports d) \<longrightarrow>
         fst (deleteReport j d)
         \<and> deleteReport j (snd (deleteReport j d)) = (False, snd (deleteReport j d))"
    by (auto simp: deleteReport_def Let_def filter_empty_conv)
  from t1 t2 t3 r1 r2 r3 show ?thesis by blast
qed

lemma sample_db_ids:
  "map ticket_id (tickets sample_db) = [1, 2] \<and> map report_id (reports sample_db) = [1, 2]"
  by code_simp

theorem delete_true_iff_row_removed_witness:
  "1 \<in> ticket_id ` set (tickets sample_db) \<and> 7 \<notin> ticket_id ` set (tickets sample_db)
   \<and> 2 \<in> report_id ` set (reports sample_db) \<and> 7 \<notin> report_id ` set (reports sample_db)
   \<and> fst (deleteTicket 1 sample_db)
   \<and> deleteTicket 1 (snd (deleteTicket 1 sample_db)) = (False, snd (deleteTicket 1 sample_db))
   \<and> deleteTicket 7 sample_db = (False, sample_db)
   \<and> fst (deleteReport 2 sample_db)
   \<and> deleteReport 2 (snd (deleteReport 2 sample_db)) = (False, snd (deleteReport 2 sample_db))
   \<and> deleteReport 7 sample_db = (False, sample_db)"
proof -
  have ids: "1 \<in> ticket_id ` set (tickets sample_db) \<and> 7 \<notin> ticket_id ` set (tickets sample_db)
             \<and> 2 \<in> report_id ` set (reports sample_db) \<and> 7 \<notin> report_id ` set (reports sample_db)"
    using sample_db_ids by (simp flip: set_map)
  from delete_true_iff_row_removed [of 1 sample_db 2] delete_true_iff_row_removed [of 7 sample_db 7] ids
  show ?thesis by blast
qed

text \<open>
  Claim C2. The specification wants the numbers given out within a year to rise strictly and
  no two stored tickets to carry the same number, over any sequence of creations and deletions.
  The code numbers a ticket by counting the rows dated in the year, so a deletion lowers the count
  and the next ticket repeats a number that a stored ticket still carries: after two creations
  in 2025, the deletion of the first ticket and a third creation, the tickets with \<open>id\<close> 2
  and 3 are both \<open>TKT-2025-002\<close>.
\<close>

theorem ticket_number_reused_after_delete:
  "map (\<lambda>t. (ticket_id t, ticketNo t)) (tickets reused_db)
     = [(2, Some ''TKT-2025-002''), (3, Some ''TKT-2025-002'')]"
  by code_simp

section \<open>Updating\<close>

lemma set_ticket_keeps:
  "\<not> sets_ticketNo a \<Longrightarrow> ticketNo (set_ticket a t) = ticketNo t"
  by (cases a) (simp_all add: sets_ticketNo_def)

lemma set_ticket_id: "ticket_id (set_ticket a t) = ticket_id t"
  by (cases a) simp_all

lemma fold_set_ticket_keeps:
  "list_all (\<lambda>a. \<not> sets_ticketNo a) p \<Longrightarrow> ticketNo (fold set_ticket p t) = ticketNo t"
  by (induction p arbitrary: t) (simp_all add: set_ticket_keeps)

lemma fold_set_ticket_id: "ticket_id (fold set_ticket p t) = ticket_id t"
  by (induction p arbitrary: t) (simp_all add: set_ticket_id)

text \<open>
  Claim C3, as amended. An \<open>updateTicket\<close> whose fields do not include \<open>ticketNo\<close>
  leaves the ticket number of every stored ticket as it was, whether the call succeeds or
  fails. (The claim as written covers every partial; the type \<open>Partial<InsertTicket>\<close> has
  \<open>ticketNo\<close> among its fields and nothing on the way to the table takes it out.)
\<close>

theorem updateTicket_keeps_ticketNo:
  assumes "list_all (\<lambda>a. \<not> sets_ticketNo a) ticket"
  shows "map (\<lambda>t. (ticket_id t, ticketNo t)) (tickets (snd (updateTicket i ticket d)))
         = map (\<lambda>t. (ticket_id t, ticketNo t)) (tickets d)"
  using assms
  by (simp add: updateTicket_def Let_def fold_set_ticket_keeps fold_set_ticket_id)

theorem updateTicket_keeps_ticketNo_witness:
  "list_all (\<lambda>a. \<not> sets_ticketNo a) [Set_ticketStatus (Some ''Closed''), Set_siteName None]
   \<and> map (\<lambda>t. (ticket_id t, ticketNo t))
        (tickets (snd (updateTicket 1 [Set_ticketStatus (Some ''Closed''), Set_siteName None] sample_db)))
     = map (\<lambda>t. (ticket_id t, ticketNo t)) (tickets sample_db)
   \<and> map ticketStatus
        (tickets (snd (updateTicket 1 [Set_ticketStatus (Some ''Closed''), Set_siteName None] sample_db)))
     = [Some ''Closed'', Some ''Closed'']
   \<and> map ticketStatus (tickets sample_db) = [Some ''Open'', Some ''Closed'']"
proof -
  have h: "list_all (\<lambda>a. \<not> sets_ticketNo a) [Set_ticketStatus (Some ''Closed''), Set_siteName None]"
    by (simp add: sets_ticketNo_def)
  have e: "map ticketStatus
        (tickets (snd (updateTicket 1 [Set_ticketStatus (Some ''Closed''), Set_siteName None] sample_db)))
     = [Some ''Closed'', Some ''Closed'']
   \<and> map ticketStatus (tickets sample_db) = [Some ''Open'', Some ''Closed'']"
    by code_simp
  from updateTicket_keeps_ticketNo [OF h, of 1 sample_db] h e show ?thesis by blast
qed

text \<open>
  The claim as written fails: an update that names \<open>ticketNo\<close> replaces the number of
  the stored ticket, and the changed ticket is what the call returns.
\<close>

theorem updateTicket_changes_ticketNo_counterexample:
  "map (\<lambda>t. (ticket_id t, ticketNo t)) (tickets sample_db)
     = [(1, Some ''TKT-2025-001''), (2, Some ''TKT-2025-002'')]
   \<and> map (\<lambda>t. (ticket_id t, ticketNo t))
        (tickets (snd (updateTicket 1 [Set_ticketNo (Some ''X-1'')] sample_db)))
     = [(1, Some ''X-1''), (2, Some ''TKT-2025-002'')]
   \<and> map_option ticketNo (projr (fst (updateTicket 1 [Set_ticketNo (Some ''X-1'')] sample_db)))
     = Some (Some ''X-1'')"
  by code_simp

text \<open>
  On an \<open>id\<close> that no row has, an update with at least one field finds nothing and changes
  nothing.
\<close>

lemma updateTicket_unknown_id:
  assumes "i \<notin> ticket_id ` set (tickets d)" and "ticket \<noteq> []"
  shows "updateTicket i ticket d = (Inr None, d)"
proof -
  have m: "map (\<lambda>t. if ticket_id t = i then fold set_ticket ticket t else t) (tickets d) = tickets d"
    using assms(1) by (intro map_idI) auto
  have "sql_where (\<lambda>t. Some (ticket_id t = i)) (tickets d) = []"
    using assms(1) by (intro sql_where_id_nil) (auto simp: list_all_iff)
  with m assms(2) show ?thesis
    by (simp add: updateTicket_def getTicketById_def)
qed

lemma updateReport_unknown_id:
  assumes "i \<notin> report_id ` set (reports d)" and "report \<noteq> []"
  shows "updateReport i report d = (Inr None, d)"
proof -
  have m: "map (\<lambda>r. if report_id r = i then fold set_report report r else r) (reports d) = reports d"
    using assms(1) by (intro map_idI) auto
  have "sql_where (\<lambda>r. Some (report_id r = i)) (reports d) = []"
    using assms(1) by (intro sql_where_id_nil) (auto simp: list_all_iff)
  with m assms(2) show ?thesis
    by (simp add: updateReport_def getReportById_def)
qed

text \<open>
  Claim C6. The specification wants an update with an empty partial to return the record with
  every field unchanged. The code hands the empty object to drizzle's \<open>set\<close>, which throws,
  so \<open>updateTicket(1, {})\<close> and \<open>updateReport(1, {})\<close> on stored records fail with
  \<open>Failed to update ticket\<close> and \<open>Failed to update report\<close>; the records stay as
  they were, but the caller gets an error in place of the record.
\<close>

theorem update_with_empty_partial_fails:
  "map_option ticket_id (getTicketById 1 sample_db) = Some 1
   \<and> updateTicket 1 [] sample_db = (Inl (Error ''Failed to update ticket''), sample_db)
   \<and> map_option report_id (getReportById 1 sample_db) = Some 1
   \<and> updateReport 1 [] sample_db = (Inl (Error ''Failed to update report''), sample_db)"
proof -
  have "map_option ticket_id (getTicketById 1 sample_db) = Some 1"
    by code_simp
  moreover have "map_option report_id (getReportById 1 sample_db) = Some 1"
    by code_simp
  ultimately show ?thesis
    by (simp add: updateTicket_def updateReport_def)
qed

section \<open>Listing\<close>

lemma like_match_percent:
  "like_match cf (CHR ''%'' # ps) s \<longleftrightarrow> (\<exists>s1 s2. s = s1 @ s2 \<and> like_match cf ps s2)"
proof (induction s)
  case Nil
  show ?case by simp
next
  case (Cons c cs)
  have "like_match cf (CHR ''%'' # ps) (c # cs)
        \<longleftrightarrow> like_match cf ps (c # cs) \<or> (\<exists>s1 s2. cs = s1 @ s2 \<and> like_match cf ps s2)"
    using Cons by simp
  also have "\<dots> \<longleftrightarrow> (\<exists>s1 s2. c # cs = s1 @ s2 \<and> like_match cf ps s2)"
    by (auto simp: Cons_eq_append_conv)
  finally show ?case .
qed

lemma like_match_plain:
  "list_all (\<lambda>c. c \<noteq> CHR ''%'' \<and> c \<noteq> CHR ''_'' \<and> c \<noteq> CHR 0x5C) x \<Longrightarrow>
   like_match cf (x @ ps) s \<longleftrightarrow> (\<exists>a b. s = a @ b \<and> map cf a = map cf x \<and> like_match cf ps b)"
proof (induction x arbitrary: s)
  case Nil
  show ?case by simp
next
  case (Cons p x)
  show ?case
  proof (cases s)
    case Nil
    with Cons.prems show ?thesis by simp
  next
    case (Cons c cs)
    from Cons.prems have p: "p \<noteq> CHR ''%''" "p \<noteq> CHR ''_''" "p \<noteq> CHR 0x5C"
      and x: "list_all (\<lambda>c. c \<noteq> CHR ''%'' \<and> c \<noteq> CHR ''_'' \<and> c \<noteq> CHR 0x5C) x"
      by simp_all
    have "like_match cf ((p # x) @ ps) (c # cs)
          \<longleftrightarrow> cf p = cf c \<and> (\<exists>a b. cs = a @ b \<and> map cf a = map cf x \<and> like_match cf ps b)"
      using p Cons.IH [OF x, of cs] by simp
    also have "\<dots> \<longleftrightarrow> (\<exists>a b. c # cs = a @ b \<and> map cf a = map cf (p # x) \<and> like_match cf ps b)"
    proof
      assume "cf p = cf c \<and> (\<exists>a b. cs = a @ b \<and> map cf a = map cf x \<and> like_match cf ps b)"
      then obtain a b where "cf p = cf c" "cs = a @ b" "map cf a = map cf x" "like_match cf ps b"
        by blast
      then have "c # cs = (c # a) @ b \<and> map cf (c # a) = map cf (p # x) \<and> like_match cf ps b"
        by simp
      then show "\<exists>a b. c # cs = a @ b \<and> map cf a = map cf (p # x) \<and> like_match cf ps b"
        by blast
    next
      assume "\<exists>a b. c # cs = a @ b \<and> map cf a = map cf (p # x) \<and> like_match cf ps b"
      then obtain a b where ab: "c # cs = a @ b" "map cf a = map cf (p # x)" "like_match cf ps b"
        by blast
      from ab(2) obtain a0 a' where a: "a = a0 # a'" "cf a0 = cf p" "map cf a' = map cf x"
        by (cases a) auto
      with ab(1) have "a0 = c" "cs = a' @ b" by simp_all
      with a ab(3) show "cf p = cf c \<and> (\<exists>a b. cs = a @ b \<and> map cf a = map cf x \<and> like_match cf ps b)"
        by auto
    qed
    finally show ?thesis using Cons by simp
  qed
qed

lemma like_match_any: "like_match cf ''%'' s"
  by (simp add: like_match_percent)

lemma like_match_substring:
  assumes "list_all (\<lambda>c. c \<noteq> CHR ''%'' \<and> c \<noteq> CHR ''_'' \<and> c \<noteq> CHR 0x5C) x"
  shows "like_match cf (''%'' @ x @ ''%'') s \<longleftrightarrow> sublist (map cf x) (map cf s)"
proof -
  have "like_match cf (''%'' @ x @ ''%'') s
        \<longleftrightarrow> (\<exists>s1 s2. s = s1 @ s2 \<and> (\<exists>a b. s2 = a @ b \<and> map cf a = map cf x))"
    by (simp add: like_match_percent like_match_plain [OF assms] like_match_any)
  also have "\<dots> \<longleftrightarrow> (\<exists>ps ss. map cf s = ps @ map cf x @ ss)"
  proof
    assume "\<exists>s1 s2. s = s1 @ s2 \<and> (\<exists>a b. s2 = a @ b \<and> map cf a = map cf x)"
    then obtain s1 a b where "s = s1 @ a @ b" "map cf a = map cf x"
      by blast
    then have "map cf s = map cf s1 @ map cf x @ map cf b"
      by simp
    then show "\<exists>ps ss. map cf s = ps @ map cf x @ ss"
      by blast
  next
    assume "\<exists>ps ss. map cf s = ps @ map cf x @ ss"
    then obtain ps ss where "map cf s = ps @ map cf x @ ss"
      by blast
    then have "\<exists>s1 s2. s = s1 @ s2 \<and> ps = map cf s1 \<and> map cf x @ ss = map cf s2"
      by (simp only: map_eq_append_conv)
    then obtain s1 s2 where s: "s = s1 @ s2" "map cf s2 = map cf x @ ss"
      by metis
    from s(2) have "\<exists>a b. s2 = a @ b \<and> map cf x = map cf a \<and> ss = map cf b"
      by (simp only: map_eq_append_conv)
    then obtain a b where "s2 = a @ b" "map cf a = map cf x"
      by metis
    with s(1) show "\<exists>s1 s2. s = s1 @ s2 \<and> (\<exists>a b. s2 = a @ b \<and> map cf a = map cf x)"
      by blast
  qed
  finally show ?thesis by (simp add: sublist_def)
qed

lemma sql_and_True [simp]: "sql_and a b = Some True \<longleftrightarrow> a = Some True \<and> b = Some True"
  by (cases "(a, b)" rule: sql_and.cases) auto

lemma sql_or_True [simp]: "sql_or a b = Some True \<longleftrightarrow> a = Some True \<or> b = Some True"
  by (cases "(a, b)" rule: sql_or.cases) auto

lemma like_True:
  "plain (Some x) \<Longrightarrow> like cf column (''%'' @ x @ ''%'') = Some True \<longleftrightarrow> contains_text cf column x"
  using like_match_substring [of x cf]
  by (cases column) (simp_all add: like_def contains_text_def plain_def)

lemma eq_True: "eq cf column v = Some True \<longleftrightarrow> equals_text cf column v"
  by (cases column) (simp_all add: eq_def equals_text_def)

lemma gte_True: "gte column v = Some True \<longleftrightarrow> (case column of None \<Rightarrow> False | Some x \<Rightarrow> v \<le> x)"
  by (cases column) (simp_all add: gte_def)

lemma lte_True: "lte column v = Some True \<longleftrightarrow> (case column of None \<Rightarrow> False | Some x \<Rightarrow> x \<le> v)"
  by (cases column) (simp_all add: lte_def)

lemma plain_the: "plain v \<Longrightarrow> truthy v \<Longrightarrow> plain (Some (the v))"
  by (cases v) (simp_all add: truthy_def)

lemma getTickets_filter:
  assumes "plain (opt_field TicketFilters.search filters)"
  shows "getTickets cf filters d
         = orderBy_desc InsertTicket.date (filter (ticket_satisfies cf filters) (tickets d))"
proof (cases "truthy (opt_field TicketFilters.search filters)")
  case True
  note l = like_True [OF plain_the [OF assms True]]
  show ?thesis
    using True
    by (simp add: getTickets_def Let_def sql_where_def and_conditions_def or_conditions_def
        ticket_satisfies_def [abs_def] l eq_True del: append.simps)
next
  case False
  then show ?thesis
    by (simp add: getTickets_def Let_def sql_where_def and_conditions_def or_conditions_def
        ticket_satisfies_def [abs_def] eq_True)
qed

lemma getReports_filter:
  assumes "plain (opt_field ReportFilters.search filters)"
  shows "getReports cf to_date filters d
         = orderBy_desc InsertReport.date (filter (report_satisfies cf to_date filters) (reports d))"
proof (cases "truthy (opt_field ReportFilters.search filters)")
  case True
  note l = like_True [OF plain_the [OF assms True]]
  show ?thesis
    using True
    by (simp add: getReports_def Let_def sql_where_def and_conditions_def
        report_satisfies_def [abs_def] l gte_True lte_True del: append.simps)
next
  case False
  then show ?thesis
    by (simp add: getReports_def Let_def sql_where_def and_conditions_def
        report_satisfies_def [abs_def] gte_True lte_True)
qed

lemma newest_first_orderBy_desc: "newest_first column (orderBy_desc column rows)"
  using sorted_sort_key [of column rows]
  by (simp add: newest_first_def orderBy_desc_def sorted_wrt_rev sorted_map)

lemma mset_orderBy_desc: "mset (orderBy_desc column rows) = mset rows"
  by (simp add: orderBy_desc_def)

text \<open>
  Claim C4, as amended. When the search text has none of the characters \<open>%\<close>, \<open>_\<close>
  and backslash, \<open>getTickets\<close> and \<open>getReports\<close> return exactly the stored records
  that satisfy every supplied filter, the newest date first. For tickets: the search text is
  contained in the ticket number, the site name or the contact person, and the status and the
  project type equal the given values; for reports: the search text is contained in the staff
  name and the date lies within the bounds, both included. Text is compared under the
  collation of the column, in the search and in the two equalities alike, so what is
  case-insensitive in one is case-insensitive in the other.
\<close>

theorem getTickets_getReports_filtered:
  "(plain (opt_field TicketFilters.search tf) \<longrightarrow>
      mset (getTickets cf tf d) = filter_mset (ticket_satisfies cf tf) (mset (tickets d))
      \<and> newest_first InsertTicket.date (getTickets cf tf d))
   \<and> (plain (opt_field ReportFilters.search rf) \<longrightarrow>
      mset (getReports cf to_date rf d) = filter_mset (report_satisfies cf to_date rf) (mset (reports d))
      \<and> newest_first InsertReport.date (getReports cf to_date rf d))"
  by (simp add: getTickets_filter getReports_filter newest_first_orderBy_desc mset_orderBy_desc)

theorem getTickets_getReports_filtered_witness:
  "plain (opt_field TicketFilters.search
            (Some \<lparr>TicketFilters.search = Some ''tkt'', status = Some ''closed'', TicketFilters.projectType = None\<rparr>))
   \<and> plain (opt_field ReportFilters.search
            (Some \<lparr>ReportFilters.search = Some ''a'', fromDate = Some ''2025-04-01'', toDate = None\<rparr>))
   \<and> mset (getTickets ascii_ci
        (Some \<lparr>TicketFilters.search = Some ''tkt'', status = Some ''closed'', TicketFilters.projectType = None\<rparr>)
        sample_db)
     = filter_mset (ticket_satisfies ascii_ci
        (Some \<lparr>TicketFilters.search = Some ''tkt'', status = Some ''closed'', TicketFilters.projectType = None\<rparr>))
        (mset (tickets sample_db))
   \<and> map ticket_id (getTickets ascii_ci
        (Some \<lparr>TicketFilters.search = Some ''tkt'', status = Some ''closed'', TicketFilters.projectType = None\<rparr>)
        sample_db) = [2]
   \<and> mset (getReports ascii_ci iso_date
        (Some \<lparr>ReportFilters.search = Some ''a'', fromDate = Some ''2025-04-01'', toDate = None\<rparr>) sample_db)
     = filter_mset (report_satisfies ascii_ci iso_date
        (Some \<lparr>ReportFilters.search = Some ''a'', fromDate = Some ''2025-04-01'', toDate = None\<rparr>))
        (mset (reports sample_db))
   \<and> map name (getReports ascii_ci iso_date
        (Some \<lparr>ReportFilters.search = Some ''a'', fromDate = Some ''2025-04-01'', toDate = None\<rparr>) sample_db)
     = [Some ''Ravi'']"
proof -
  have p1: "plain (opt_field TicketFilters.search
            (Some \<lparr>TicketFilters.search = Some ''tkt'', status = Some ''closed'', TicketFilters.projectType = None\<rparr>))"
    by (simp add: plain_def opt_field_def)
  have p2: "plain (opt_field ReportFilters.search
            (Some \<lparr>ReportFilters.search = Some ''a'', fromDate = Some ''2025-04-01'', toDate = None\<rparr>))"
    by (simp add: plain_def opt_field_def)
  have e1: "map ticket_id (getTickets ascii_ci
        (Some \<lparr>TicketFilters.search = Some ''tkt'', status = Some ''closed'', TicketFilters.projectType = None\<rparr>)
        sample_db) = [2]"
    by code_simp
  have e2: "map name (getReports ascii_ci iso_date
        (Some \<lparr>ReportFilters.search = Some ''a'', fromDate = Some ''2025-04-01'', toDate = None\<rparr>) sample_db)
     = [Some ''Ravi'']"
    by code_simp
  from getTickets_getReports_filtered [of
      "Some \<lparr>TicketFilters.search = Some ''tkt'', status = Some ''closed'', TicketFilters.projectType = None\<rparr>"
      ascii_ci sample_db
      "Some \<lparr>ReportFilters.search = Some ''a'', fromDate = Some ''2025-04-01'', toDate = None\<rparr>"
      iso_date] p1 p2 e1 e2
  show ?thesis by blast
qed

text \<open>
  The claim as written fails. The search text goes into the \<open>LIKE\<close> pattern as it is,
  so \<open>_\<close> stands for any character: the search \<open>_\<close> returns both sample tickets,
  none of which has an underscore in its number, site name or contact person. And under a
  case-insensitive collation, which finds \<open>tkt\<close> in \<open>TKT-2025-001\<close>, the status
  \<open>closed\<close> selects the ticket whose status is \<open>Closed\<close>.
\<close>

theorem getTickets_search_counterexample:
  "map ticketNo (getTickets ascii_ci
       (Some \<lparr>TicketFilters.search = Some ''_'', status = None, TicketFilters.projectType = None\<rparr>) sample_db)
     = [Some ''TKT-2025-002'', Some ''TKT-2025-001'']
   \<and> filter (ticket_satisfies ascii_ci
       (Some \<lparr>TicketFilters.search = Some ''_'', status = None, TicketFilters.projectType = None\<rparr>))
       (tickets sample_db) = []
   \<and> map (\<lambda>t. (ticketNo t, ticketStatus t)) (getTickets ascii_ci
       (Some \<lparr>TicketFilters.search = None, status = Some ''closed'', TicketFilters.projectType = None\<rparr>) sample_db)
     = [(Some ''TKT-2025-002'', Some ''Closed'')]"
  by code_simp

lemma truthy_drop_empty [simp]: "truthy (drop_empty v) = truthy v"
  by (cases v) (simp_all add: drop_empty_def truthy_def)

lemma the_drop_empty: "truthy v \<Longrightarrow> the (drop_empty v) = the v"
  by (cases v) (simp_all add: drop_empty_def truthy_def)

lemma getTickets_drop_empty:
  "getTickets cf (Some \<lparr>TicketFilters.search = s, status = st, TicketFilters.projectType = pt\<rparr>) d
   = getTickets cf (Some \<lparr>TicketFilters.search = drop_empty s, status = drop_empty st,
                          TicketFilters.projectType = drop_empty pt\<rparr>) d"
  by (simp add: getTickets_def opt_field_def the_drop_empty Let_def del: append.simps)

lemma getReports_drop_empty:
  "getReports cf to_date (Some \<lparr>ReportFilters.search = s, fromDate = f, toDate = t\<rparr>) d
   = getReports cf to_date (Some \<lparr>ReportFilters.search = drop_empty s, fromDate = drop_empty f,
                                   toDate = drop_empty t\<rparr>) d"
  by (simp add: getReports_def opt_field_def the_drop_empty Let_def del: append.simps)

lemma getTickets_no_filter:
  "getTickets cf None d = orderBy_desc InsertTicket.date (tickets d)"
  "getTickets cf (Some \<lparr>TicketFilters.search = None, status = None, TicketFilters.projectType = None\<rparr>) d
   = orderBy_desc InsertTicket.date (tickets d)"
  by (simp_all add: getTickets_def opt_field_def truthy_def)

lemma getReports_no_filter:
  "getReports cf to_date None d = orderBy_desc InsertReport.date (reports d)"
  "getReports cf to_date (Some \<lparr>ReportFilters.search = None, fromDate = None, toDate = None\<rparr>) d
   = orderBy_desc InsertReport.date (reports d)"
  by (simp_all add: getReports_def opt_field_def truthy_def)

lemma getReports_from_only:
  "f \<noteq> [] \<Longrightarrow>
   getReports cf to_date (Some \<lparr>ReportFilters.search = None, fromDate = Some f, toDate = None\<rparr>) d
   = orderBy_desc InsertReport.date
       (filter (\<lambda>r. case InsertReport.date r of None \<Rightarrow> False | Some x \<Rightarrow> to_date f \<le> x) (reports d))"
  by (simp add: getReports_def opt_field_def truthy_def Let_def sql_where_def and_conditions_def gte_True)

lemma getReports_to_only:
  "t \<noteq> [] \<Longrightarrow>
   getReports cf to_date (Some \<lparr>ReportFilters.search = None, fromDate = None, toDate = Some t\<rparr>) d
   = orderBy_desc InsertReport.date
       (filter (\<lambda>r. case InsertReport.date r of None \<Rightarrow> False | Some x \<Rightarrow> x \<le> to_date t) (reports d))"
  by (simp add: getReports_def opt_field_def truthy_def Let_def sql_where_def and_conditions_def lte_True)

text \<open>
  Claim C5. A filter value counts only when it is a string that is not empty: replacing empty
  values by absent ones changes no result of \<open>getTickets\<close> or \<open>getReports\<close>; with no
  filter object, or with one whose values are all absent, every stored record is returned; and
  a report query may give the lower bound alone or the upper bound alone.
\<close>

theorem empty_filter_values_are_ignored:
  "getTickets cf (Some \<lparr>TicketFilters.search = s, status = st, TicketFilters.projectType = pt\<rparr>) d
     = getTickets cf (Some \<lparr>TicketFilters.search = drop_empty s, status = drop_empty st,
                            TicketFilters.projectType = drop_empty pt\<rparr>) d
   \<and> getReports cf to_date (Some \<lparr>ReportFilters.search = rs, fromDate = f, toDate = t\<rparr>) d
     = getReports cf to_date (Some \<lparr>ReportFilters.search = drop_empty rs, fromDate = drop_empty f,
                                     toDate = drop_empty t\<rparr>) d
   \<and> getTickets cf None d = orderBy_desc InsertTicket.date (tickets d)
   \<and> getTickets cf (Some \<lparr>TicketFilters.search = None, status = None, TicketFilters.projectType = None\<rparr>) d
     = orderBy_desc InsertTicket.date (tickets d)
   \<and> mset (getTickets cf None d) = mset (tickets d)
   \<and> getReports cf to_date None d = orderBy_desc InsertReport.date (reports d)
   \<and> getReports cf to_date (Some \<lparr>ReportFilters.search = None, fromDate = None, toDate = None\<rparr>) d
     = orderBy_desc InsertReport.date (reports d)
   \<and> mset (getReports cf to_date None d) = mset (reports d)
   \<and> (lo \<noteq> [] \<longrightarrow>
        mset (getReports cf to_date
                (Some \<lparr>ReportFilters.search = None, fromDate = Some lo, toDate = None\<rparr>) d)
        = filter_mset (\<lambda>r. case InsertReport.date r of None \<Rightarrow> False | Some x \<Rightarrow> to_date lo \<le> x)
            (mset (reports d)))
   \<and> (hi \<noteq> [] \<longrightarrow>
        mset (getReports cf to_date
                (Some \<lparr>ReportFilters.search = None, fromDate = None, toDate = Some hi\<rparr>) d)
        = filter_mset (\<lambda>r. case InsertReport.date r of None \<Rightarrow> False | Some x \<Rightarrow> x \<le> to_date hi)
            (mset (reports d)))"
  using getTickets_drop_empty [of cf s st pt d] getReports_drop_empty [of cf to_date rs f t d]
  by (simp add: getTickets_no_filter getReports_no_filter getReports_from_only getReports_to_only
      mset_orderBy_desc)

theorem empty_filter_values_are_ignored_witness:
  "''2025-04-01'' \<noteq> []
   \<and> getTickets ascii_ci (Some \<lparr>TicketFilters.search = Some [], status = Some ''Closed'',
                                TicketFilters.projectType = Some []\<rparr>) sample_db
     = getTickets ascii_ci (Some \<lparr>TicketFilters.search = None, status = Some ''Closed'',
                                  TicketFilters.projectType = None\<rparr>) sample_db
   \<and> mset (getReports ascii_ci iso_date
        (Some \<lparr>ReportFilters.search = None, fromDate = Some ''2025-04-01'', toDate = None\<rparr>) sample_db)
     = filter_mset (\<lambda>r. case InsertReport.date r of None \<Rightarrow> False | Some x \<Rightarrow> iso_date ''2025-04-01'' \<le> x)
         (mset (reports sample_db))
   \<and> mset (getReports ascii_ci iso_date
        (Some \<lparr>ReportFilters.search = None, fromDate = None, toDate = Some ''2025-04-01''\<rparr>) sample_db)
     = filter_mset (\<lambda>r. case InsertReport.date r of None \<Rightarrow> False | Some x \<Rightarrow> x \<le> iso_date ''2025-04-01'')
         (mset (reports sample_db))"
  using empty_filter_values_are_ignored [of ascii_ci "Some []" "Some ''Closed''" "Some []" sample_db
      iso_date None None None "''2025-04-01''" "''2025-04-01''"]
  by (simp add: drop_empty_def)

section \<open>Exporting\<close>

lemma exportToExcel_data:
  "records \<noteq> [] \<Longrightarrow>
     \<exists>wb. exportToExcel f ts (Some records) ty fn = Inr wb
        \<and> length (worksheetData wb) = 1 + length records"
  by (simp add: exportToExcel_def Let_def)

text \<open>
  Claim C8. For tickets and for reports, \<open>exportToExcel\<close> fails with the error
  \<open>No data to export\<close> when the record list is absent or empty, and whenever it does
  produce a workbook the sheet has the header row and one row for each record, of which there
  is at least one.
\<close>

theorem exportToExcel_no_data:
  "exportToExcel f ts None ty fn = Inl (Error ''No data to export'')
   \<and> exportToExcel f ts (Some []) ty fn = Inl (Error ''No data to export'')
   \<and> (\<forall>wb. exportToExcel f ts data ty fn = Inr wb \<longrightarrow>
         (\<exists>records. data = Some records \<and> records \<noteq> []
            \<and> length (worksheetData wb) = 1 + length records))"
proof (intro conjI allI impI)
  show "exportToExcel f ts None ty fn = Inl (Error ''No data to export'')"
    by (simp add: exportToExcel_def)
  show "exportToExcel f ts (Some []) ty fn = Inl (Error ''No data to export'')"
    by (simp add: exportToExcel_def)
next
  fix wb
  assume r: "exportToExcel f ts data ty fn = Inr wb"
  show "\<exists>records. data = Some records \<and> records \<noteq> []
            \<and> length (worksheetData wb) = 1 + length records"
  proof (cases data)
    case None
    with r show ?thesis by (simp add: exportToExcel_def)
  next
    case (Some records)
    show ?thesis
    proof (cases "records = []")
      case True
      with r Some show ?thesis by (simp add: exportToExcel_def)
    next
      case False
      from exportToExcel_data [OF False, of f ts ty fn] r Some
      show ?thesis using False by auto
    qed
  qed
qed

theorem exportToExcel_no_data_witness:
  "(\<exists>wb. exportToExcel (\<lambda>v. ''14/03/2025'') ''2025-06-02'' (Some [sample_obj]) Reports ''ACV_Reports''
            = Inr wb \<and> length (worksheetData wb) = 2)
   \<and> exportToExcel (\<lambda>v. ''14/03/2025'') ''2025-06-02'' None Reports ''ACV_Reports''
       = Inl (Error ''No data to export'')
   \<and> exportToExcel (\<lambda>v. ''14/03/2025'') ''2025-06-02'' (Some []) Tickets ''ACV_Tickets''
       = Inl (Error ''No data to export'')"
proof -
  obtain wb where wb: "exportToExcel (\<lambda>v. ''14/03/2025'') ''2025-06-02'' (Some [sample_obj]) Reports
                          ''ACV_Reports'' = Inr wb"
    using exportToExcel_data [of "[sample_obj]" "\<lambda>v. ''14/03/2025''" "''2025-06-02''" Reports "''ACV_Reports''"]
    by auto
  from exportToExcel_no_data [of "\<lambda>v. ''14/03/2025''" "''2025-06-02''" Reports "''ACV_Reports''"
      "Some [sample_obj]"] wb
  have "length (worksheetData wb) = 2" by auto
  with wb exportToExcel_no_data [of "\<lambda>v. ''14/03/2025''" "''2025-06-02''" Tickets "''ACV_Tickets''" None]
    exportToExcel_no_data [of "\<lambda>v. ''14/03/2025''" "''2025-06-02''" Reports "''ACV_Reports''" None]
  show ?thesis by blast
qed

text \<open>
  Claim C9. The specification wants a number 0 that is present to be shown as \<open>0\<close>. The
  cells are built with \<open>field || ''\<close>, and 0 is false in JavaScript: a report whose
  \<open>kmIn\<close> is 0 gets the empty string in the column \<open>KM In\<close>, as a missing value
  does.
\<close>

theorem export_renders_zero_as_empty:
  "js_prop sample_obj ''kmIn'' = JNumber 0
   \<and> (\<exists>wb. exportToExcel (\<lambda>v. ''14/03/2025'') ''2025-06-02'' (Some [sample_obj]) Reports ''ACV_Reports''
             = Inr wb
          \<and> take 4 (worksheetData wb ! 1) = [JString ''Asha'', JString ''14/03/2025'', JString [], JNumber 75])"
  by (simp add: exportToExcel_def Let_def report_row_def sample_obj_def js_prop_def js_or_def date_cell_def)

end
